theory Spec2Isabelle
  imports Main "HOL-Library.Sublist" "HOL-Library.AList"
begin

section \<open>Python string operations used by the source\<close>

text \<open>\<^verbatim>\<open>sub in s\<close> on strings: \<open>sub\<close> occurs in \<open>s\<close> as a contiguous block.\<close>

fun contains :: "string \<Rightarrow> string \<Rightarrow> bool" where
  "contains sub [] = (sub = [])"
| "contains sub (c # cs) = (prefix sub (c # cs) \<or> contains sub cs)"

text \<open>
  \<^verbatim>\<open>s.replace(old, new)\<close>: every occurrence of \<open>old\<close>, found left to right without
  overlap, becomes \<open>new\<close>. The counter is the number of characters of a matched
  occurrence still to be skipped. At every call of the source \<open>old\<close> is a non-empty
  literal.
\<close>

fun replace_from :: "string \<Rightarrow> string \<Rightarrow> nat \<Rightarrow> string \<Rightarrow> string" where
  "replace_from old new n [] = []"
| "replace_from old new (Suc n) (c # cs) = replace_from old new n cs"
| "replace_from old new 0 (c # cs) =
     (if prefix old (c # cs) then new @ replace_from old new (length old - 1) cs
      else c # replace_from old new 0 cs)"

definition str_replace :: "string \<Rightarrow> string \<Rightarrow> string \<Rightarrow> string" where
  "str_replace old new s = replace_from old new 0 s"

text \<open>
  \<^verbatim>\<open>s.split(sep)\<close> for a non-empty separator: the pieces between the occurrences of
  \<open>sep\<close>; \<open>cur\<close> is the piece being read, reversed.
\<close>

fun split_from :: "string \<Rightarrow> nat \<Rightarrow> string \<Rightarrow> string \<Rightarrow> string list" where
  "split_from sep n cur [] = [rev cur]"
| "split_from sep (Suc n) cur (c # cs) = split_from sep n cur cs"
| "split_from sep 0 cur (c # cs) =
     (if prefix sep (c # cs) then rev cur # split_from sep (length sep - 1) [] cs
      else split_from sep 0 (c # cur) cs)"

definition str_split :: "string \<Rightarrow> string \<Rightarrow> string list" where
  "str_split sep s = split_from sep 0 [] s"

section \<open>Data of the OpenAPI source\<close>

datatype json =
    JNull | JBool bool | JNum int | JStr string
  | JArr "json list" | JObj "(string \<times> json) list"

text \<open>
  Every \<^verbatim>\<open>raise\<close> and failing \<^verbatim>\<open>assert\<close> of the source, the \<^verbatim>\<open>KeyError\<close> of a
  subscript on a missing key, the \<^verbatim>\<open>ValueError\<close> of a too short unpacking, and the
  failures the specification names for the parser's functions.
  \<open>UnableToRetrieve c k\<close> is
  \<^verbatim>\<open>Exception(f"Unable to retrieve endpoint, response code {c}, key {k}")\<close>.
\<close>

datatype error =
    AssertionError string
  | KeyError string
  | ValueError
  | UnableToRetrieve int string
  | UnresolvableParameterError
  | FetchError
  | ParseError

record OpenApiConfig =
  name :: string
  url :: string
  swagger_file :: string
  ignore_endpoints :: "string list"
  username :: string
  password :: string
  forced_examples :: "(string \<times> string list) list"
  token :: "string option"
  get_token :: "(string \<times> string) list"

text \<open>The credentials of one request: \<^verbatim>\<open>token=...\<close> or \<^verbatim>\<open>username=..., password=...\<close>.\<close>

datatype credentials = Token string | BasicAuth string string

text \<open>The requests the source sends, in the order it sends them.\<close>

datatype call =
    GetTok string string string string string
  | GetSwagJson string credentials string
  | RequestCall string credentials

record sw_dict =
  basePath :: "string option"
  paths :: json

text \<open>
  One value of \<^verbatim>\<open>url_endpoints\<close>. \<^verbatim>\<open>description\<close> and \<^verbatim>\<open>tags\<close> are read with a
  subscript and always written by the enumeration; \<^verbatim>\<open>schema\<close> and \<^verbatim>\<open>data\<close> are
  optional keys (\<open>None\<close>: the key is absent). \<^verbatim>\<open>data\<close> is kept in the form
  \<^verbatim>\<open>set_metadata\<close> reads it, its field entries; an empty one is falsy.
\<close>

record endpoint_dets =
  description :: string
  tags :: "string list"
  schema :: "(string \<times> json) list option"
  data :: "string list option"

record response =
  status_code :: int
  body :: json

type_synonym sample = "(string \<times> string) list"

datatype 'm aspect =
    DatasetProperties string
  | GlobalTags "string list"
  | InstitutionalMemory string string
  | SchemaMetadata 'm

record 'm DatasetSnapshot =
  urn :: string
  aspects :: "'m aspect list"

record 'm ApiWorkUnit =
  wu_id :: string
  proposedSnapshot :: "'m DatasetSnapshot"

text \<open>
  The functions imported from \<^verbatim>\<open>openapi_parser\<close> and \<^verbatim>\<open>mce_builder\<close>, which the
  source calls and does not define: they are parameters of the model. \<open>'m\<close> is the
  schema metadata \<^verbatim>\<open>set_metadata\<close> builds. \<^verbatim>\<open>extract_metadata\<close> gives \<open>None\<close> for a
  falsy result. The functions that the specification lets fail return a sum.
\<close>

record 'm openapi_parser =
  get_tok :: "string \<Rightarrow> string \<Rightarrow> string \<Rightarrow> string \<Rightarrow> string \<Rightarrow> error + string"
  get_swag_json :: "string \<Rightarrow> credentials \<Rightarrow> string \<Rightarrow> error + sw_dict"
  get_endpoints :: "sw_dict \<Rightarrow> (string \<times> endpoint_dets) list \<times> string list"
  extract_metadata :: "string \<Rightarrow> (string \<times> json) list \<Rightarrow> sw_dict \<Rightarrow> 'm option"
  set_metadata :: "string \<Rightarrow> string list \<Rightarrow> 'm"
  clean_url :: "string \<Rightarrow> string"
  request_call :: "string \<Rightarrow> credentials \<Rightarrow> response"
  extract_fields :: "response \<Rightarrow> string \<Rightarrow> string list \<times> sample"
  try_guessing :: "string \<Rightarrow> (string \<times> sample) list \<Rightarrow> error + string"
  compose_url_attr :: "string \<Rightarrow> string list \<Rightarrow> string"
  make_tag_urn :: "string \<Rightarrow> string"

text \<open>
  The object \<^verbatim>\<open>self\<close> of \<^verbatim>\<open>APISource\<close> (\<open>config\<close>, \<open>platform\<close>, \<open>report\<close>,
  \<open>url_basepath\<close>) together with what one run of \<^verbatim>\<open>get_workunits_internal\<close> holds and
  produces: the local \<^verbatim>\<open>root_dataset_samples\<close>, the work units yielded so far and the
  requests sent so far. The report is the list of \<open>(key, reason)\<close> pairs in the order of
  the \<^verbatim>\<open>report_warning\<close> calls.
\<close>

record 'm APISource =
  config :: OpenApiConfig
  platform :: string
  report :: "(string \<times> string) list"
  url_basepath :: string
  root_dataset_samples :: "(string \<times> sample) list"
  yielded :: "'m ApiWorkUnit list"
  calls :: "call list"

section \<open>\<^verbatim>\<open>OpenApiConfig.get_swagger\<close>\<close>

text \<open>
  Lines 61 to 90: the token is the configured one when there is one; otherwise the
  descriptor \<^verbatim>\<open>get_token\<close> is checked and the token requested.
\<close>

definition acquire_token ::
  "'m openapi_parser \<Rightarrow> OpenApiConfig \<Rightarrow> call list \<times> (error + string)" where
  "acquire_token env self =
     (case token self of
        Some t \<Rightarrow> ([], Inr t)
      | None \<Rightarrow>
          (case map_of (get_token self) ''url_complement'' of
             None \<Rightarrow> ([], Inl (AssertionError
               ''When 'request_type' is set to 'get', an url_complement is needed for the request.''))
           | Some url_complement \<Rightarrow>
               (case map_of (get_token self) ''request_type'' of
                  None \<Rightarrow> ([], Inl (KeyError ''request_type''))
                | Some request_type \<Rightarrow>
                    (let requested = (\<lambda>url4req.
                           ([GetTok (url self) (username self) (password self) url4req request_type],
                            get_tok env (url self) (username self) (password self) url4req request_type))
                     in if request_type = ''get'' then
                          (if \<not> contains ''{username}'' url_complement then
                             ([], Inl (AssertionError
                               ''we expect the keyword {username} to be present in the url''))
                           else if \<not> contains ''{password}'' url_complement then
                             ([], Inl (AssertionError
                               ''we expect the keyword {password} to be present in the url''))
                           else requested (str_replace ''{password}'' (password self)
                                  (str_replace ''{username}'' (username self) url_complement)))
                        else if request_type = ''post'' then requested url_complement
                        else ([], Inl (KeyError
                          ''This tool accepts only 'get' and 'post' as method for getting tokens''))))))"

text \<open>
  Lines 59 to 102. The result holds the requests sent and either the exception or the
  configuration, whose token the acquisition may have set, with the document. A
  failing request for the document ends the run, and the configuration is not
  returned then.
\<close>

definition get_swagger ::
  "'m openapi_parser \<Rightarrow> OpenApiConfig \<Rightarrow> call list \<times> (error + OpenApiConfig \<times> sw_dict)" where
  "get_swagger env self =
     (if get_token self \<noteq> [] \<or> token self \<noteq> None then
        (case acquire_token env self of
           (cs, Inl e) \<Rightarrow> (cs, Inl e)
         | (cs, Inr t) \<Rightarrow>
             (cs @ [GetSwagJson (url self) (Token t) (swagger_file self)],
              (case get_swag_json env (url self) (Token t) (swagger_file self) of
                 Inl e \<Rightarrow> Inl e
               | Inr sw_dict \<Rightarrow> Inr (self\<lparr>token := Some t\<rparr>, sw_dict))))
      else
        ([GetSwagJson (url self) (BasicAuth (username self) (password self)) (swagger_file self)],
         (case get_swag_json env (url self) (BasicAuth (username self) (password self))
                 (swagger_file self) of
            Inl e \<Rightarrow> Inl e
          | Inr sw_dict \<Rightarrow> Inr (self, sw_dict))))"

section \<open>\<^verbatim>\<open>APISource\<close>\<close>

definition report_warning :: "'m APISource \<Rightarrow> string \<Rightarrow> string \<Rightarrow> 'm APISource" where
  "report_warning self key reason = self\<lparr>report := report self @ [(key, reason)]\<rparr>"

definition codes_mapping :: "(int \<times> string) list" where
  "codes_mapping =
     [(400, ''Unknown error for reaching endpoint''),
      (403, ''Not authorised to get endpoint''),
      (404, ''Unable to find an example for endpoint. Please add it to the list of forced examples.''),
      (500, ''Server error for reaching endpoint''),
      (504, ''Timeout for reaching endpoint'')]"

text \<open>
  Lines 142 to 155. The reason is looked up and compared with \<^verbatim>\<open>None\<close>; the function
  ends there, so for a code of the table it returns with \<^verbatim>\<open>self\<close> as it was.
\<close>

definition report_bad_response ::
  "'m APISource \<Rightarrow> int \<Rightarrow> string \<Rightarrow> error + 'm APISource" where
  "report_bad_response self status key =
     (case map_of codes_mapping status of
        None \<Rightarrow> Inl (UnableToRetrieve status key)
      | Some reason \<Rightarrow> Inr self)"

text \<open>Lines 162 to 168 of \<^verbatim>\<open>init_dataset\<close>: the dataset name of an endpoint key.\<close>

definition dataset_name_of :: "string \<Rightarrow> string" where
  "dataset_name_of endpoint_k =
     (let n = str_replace ''/'' ''.'' (drop 1 endpoint_k)
      in if length n > 0 then (if last n = CHR ''.'' then butlast n else n)
         else ''root'')"

text \<open>\<^verbatim>\<open>clean_url(f"{config.url}{self.url_basepath}{x}")\<close>, lines 188, 260, 284 and 307.\<close>

definition tot_url_of :: "'m openapi_parser \<Rightarrow> 'm APISource \<Rightarrow> string \<Rightarrow> string" where
  "tot_url_of env self x = clean_url env (url (config self) @ url_basepath self @ x)"

text \<open>
  Lines 170 to 199. The audit stamp of the link, which holds the wall-clock time, is
  left out of the model.
\<close>

definition init_dataset ::
  "'m openapi_parser \<Rightarrow> 'm APISource \<Rightarrow> string \<Rightarrow> endpoint_dets
     \<Rightarrow> 'm DatasetSnapshot \<times> string" where
  "init_dataset env self endpoint_k endpoint_dets =
     (let dataset_name = dataset_name_of endpoint_k;
          link_url = tot_url_of env self endpoint_k
      in (\<lparr>urn = ''urn:li:dataset:(urn:li:dataPlatform:'' @ platform self @ '',''
                  @ name (config self) @ ''.'' @ dataset_name @ '',PROD)'',
           aspects =
             [DatasetProperties (description endpoint_dets),
              GlobalTags (map (make_tag_urn env) (tags endpoint_dets)),
              InstitutionalMemory link_url ''Link to call for the dataset.'']\<rparr>,
          dataset_name))"

definition build_wu :: "'m DatasetSnapshot \<Rightarrow> string \<Rightarrow> 'm ApiWorkUnit" where
  "build_wu dataset_snapshot dataset_name =
     \<lparr>wu_id = dataset_name, proposedSnapshot = dataset_snapshot\<rparr>"

text \<open>
  \<^verbatim>\<open>dataset_snapshot.aspects.append(schema_metadata)\<close> followed by
  \<^verbatim>\<open>yield self.build_wu(dataset_snapshot, dataset_name)\<close>.
\<close>

definition yield_wu ::
  "'m APISource \<Rightarrow> 'm DatasetSnapshot \<Rightarrow> string \<Rightarrow> 'm \<Rightarrow> 'm APISource" where
  "yield_wu self dataset_snapshot dataset_name schema_metadata =
     self\<lparr>yielded := yielded self @
       [build_wu (dataset_snapshot\<lparr>aspects := aspects dataset_snapshot
                    @ [SchemaMetadata schema_metadata]\<rparr>) dataset_name]\<rparr>"

text \<open>
  The request of lines 262 to 267, written again at 285 to 290 and 310 to 315:
  the token when \<^verbatim>\<open>config.token\<close> is truthy, the user name and password otherwise.
\<close>

definition endpoint_credentials :: "OpenApiConfig \<Rightarrow> credentials" where
  "endpoint_credentials cfg =
     (case token cfg of
        Some t \<Rightarrow> if t \<noteq> [] then Token t else BasicAuth (username cfg) (password cfg)
      | None \<Rightarrow> BasicAuth (username cfg) (password cfg))"

definition endpoint_request ::
  "'m openapi_parser \<Rightarrow> 'm APISource \<Rightarrow> string \<Rightarrow> response \<times> 'm APISource" where
  "endpoint_request env self tot_url =
     (request_call env tot_url (endpoint_credentials (config self)),
      self\<lparr>calls := calls self @ [RequestCall tot_url (endpoint_credentials (config self))]\<rparr>)"

text \<open>Lines 272 to 277, written again at 293 to 300 and 318 to 325.\<close>

definition emit_fields ::
  "'m openapi_parser \<Rightarrow> 'm APISource \<Rightarrow> string \<Rightarrow> 'm DatasetSnapshot \<Rightarrow> string
     \<Rightarrow> string list \<Rightarrow> 'm APISource \<times> error option" where
  "emit_fields env self endpoint_k dataset_snapshot dataset_name fields2add =
     (let self1 = (if fields2add = [] then report_warning self endpoint_k ''No Fields''
                   else self)
      in (yield_wu self1 dataset_snapshot dataset_name
            (set_metadata env dataset_name fields2add), None))"

text \<open>Lines 278 and 279, written again at 301, 302 and 326, 327.\<close>

definition bad_response ::
  "'m APISource \<Rightarrow> int \<Rightarrow> string \<Rightarrow> 'm APISource \<times> error option" where
  "bad_response self status endpoint_k =
     (case report_bad_response self status endpoint_k of
        Inl e \<Rightarrow> (self, Some e)
      | Inr self1 \<Rightarrow> (self1, None))"

text \<open>\<^verbatim>\<open>endpoint_dets.get("data", {})\<close>.\<close>

definition get_data :: "endpoint_dets \<Rightarrow> string list" where
  "get_data endpoint_dets = (case data endpoint_dets of None \<Rightarrow> [] | Some d \<Rightarrow> d)"

text \<open>
  Lines 252 to 327: the endpoint's own data, or a request to the endpoint itself, to
  the guessed address or to the forced example. Only the first request writes
  \<^verbatim>\<open>root_dataset_samples\<close>. Where the data are truthy the key is there, and
  \<^verbatim>\<open>endpoint_dets["data"]\<close> is what \<^verbatim>\<open>get\<close> returned. The second component of the
  result is the exception that ends the run, if any; the source catches none.
\<close>

definition sample_endpoint ::
  "'m openapi_parser \<Rightarrow> 'm APISource \<Rightarrow> string \<Rightarrow> endpoint_dets \<Rightarrow> 'm DatasetSnapshot
     \<Rightarrow> string \<Rightarrow> 'm APISource \<times> error option" where
  "sample_endpoint env self endpoint_k endpoint_dets dataset_snapshot dataset_name =
     (if get_data endpoint_dets \<noteq> [] then
        (yield_wu self dataset_snapshot dataset_name
           (set_metadata env dataset_name (get_data endpoint_dets)), None)
      else if CHR ''{'' \<notin> set endpoint_k then
        (let tot_url = tot_url_of env self endpoint_k;
             (response, self1) = endpoint_request env self tot_url
         in if status_code response = 200 then
              (let (fields2add, sample) = extract_fields env response dataset_name;
                   self2 = self1\<lparr>root_dataset_samples :=
                             AList.update dataset_name sample (root_dataset_samples self1)\<rparr>
               in emit_fields env self2 endpoint_k dataset_snapshot dataset_name fields2add)
            else bad_response self1 (status_code response) endpoint_k)
      else
        (case map_of (forced_examples (config self)) endpoint_k of
           None \<Rightarrow>
             (case try_guessing env endpoint_k (root_dataset_samples self) of
                Inl e \<Rightarrow> (self, Some e)
              | Inr url_guess \<Rightarrow>
                  (let tot_url = tot_url_of env self url_guess;
                       (response, self1) = endpoint_request env self tot_url
                   in if status_code response = 200 then
                        (let (fields2add, _) = extract_fields env response dataset_name
                         in emit_fields env self1 endpoint_k dataset_snapshot dataset_name
                              fields2add)
                      else bad_response self1 (status_code response) endpoint_k))
         | Some attr_list \<Rightarrow>
             (let composed_url = compose_url_attr env endpoint_k attr_list;
                  tot_url = tot_url_of env self composed_url;
                  (response, self1) = endpoint_request env self tot_url
              in if status_code response = 200 then
                   (let (fields2add, _) = extract_fields env response dataset_name
                    in emit_fields env self1 endpoint_k dataset_snapshot dataset_name
                         fields2add)
                 else bad_response self1 (status_code response) endpoint_k)))"

text \<open>
  Lines 236 to 246: the metadata extracted from a declared schema, when the endpoint
  has a truthy \<^verbatim>\<open>schema\<close> whose \<^verbatim>\<open>AnyValue\<close> is \<^verbatim>\<open>None\<close> and the extraction gives a
  truthy result.
\<close>

definition declared_metadata ::
  "'m openapi_parser \<Rightarrow> sw_dict \<Rightarrow> string \<Rightarrow> endpoint_dets \<Rightarrow> 'm option" where
  "declared_metadata env specification dataset_name endpoint_dets =
     (case schema endpoint_dets of
        None \<Rightarrow> None
      | Some sch \<Rightarrow>
          if sch \<noteq> [] \<and> map_of sch ''AnyValue'' \<in> {None, Some JNull}
          then extract_metadata env dataset_name sch specification
          else None)"

text \<open>
  The body of the loop, lines 228 to 327, for one item of \<^verbatim>\<open>url_endpoints\<close>. In the
  declared-schema branch \<^verbatim>\<open>endpoint_dets["data"]\<close> is a subscript: a missing key
  raises \<^verbatim>\<open>KeyError\<close>.
\<close>

definition process_endpoint ::
  "'m openapi_parser \<Rightarrow> sw_dict \<Rightarrow> 'm APISource \<Rightarrow> string \<times> endpoint_dets
     \<Rightarrow> 'm APISource \<times> error option" where
  "process_endpoint env specification self item =
     (let endpoint_k = fst item; endpoint_dets = snd item
      in if endpoint_k \<in> set (ignore_endpoints (config self)) then (self, None)
         else
           (let (dataset_snapshot, dataset_name) = init_dataset env self endpoint_k endpoint_dets
            in case declared_metadata env specification dataset_name endpoint_dets of
                 Some schema_metadata \<Rightarrow>
                   (case data endpoint_dets of
                      None \<Rightarrow> (self, Some (KeyError ''data''))
                    | Some d \<Rightarrow>
                        (yield_wu self dataset_snapshot dataset_name
                           (set_metadata env dataset_name d), None))
               | None \<Rightarrow>
                   sample_endpoint env self endpoint_k endpoint_dets dataset_snapshot
                     dataset_name))"

text \<open>The loop of line 227: it runs on while no exception has ended the run.\<close>

fun crawl ::
  "'m openapi_parser \<Rightarrow> sw_dict \<Rightarrow> 'm APISource \<Rightarrow> (string \<times> endpoint_dets) list
     \<Rightarrow> 'm APISource \<times> error option" where
  "crawl env specification self [] = (self, None)"
| "crawl env specification self (item # items) =
     (case process_endpoint env specification self item of
        (self1, Some e) \<Rightarrow> (self1, Some e)
      | (self1, None) \<Rightarrow> crawl env specification self1 items)"

text \<open>
  Lines 218 to 221: every warning of the enumeration is split at \<^verbatim>\<open>" --- "\<close> into
  reason and key and reported; fewer than two pieces do not unpack.
\<close>

fun report_enumeration ::
  "'m APISource \<Rightarrow> string list \<Rightarrow> 'm APISource \<times> error option" where
  "report_enumeration self [] = (self, None)"
| "report_enumeration self (w # ws) =
     (case str_split '' --- '' w of
        w_spl_reason # w_spl_key # _ \<Rightarrow>
          report_enumeration (report_warning self w_spl_key w_spl_reason) ws
      | _ \<Rightarrow> (self, Some ValueError))"

text \<open>Lines 207 to 327.\<close>

definition get_workunits_internal ::
  "'m openapi_parser \<Rightarrow> 'm APISource \<Rightarrow> 'm APISource \<times> error option" where
  "get_workunits_internal env self =
     (case get_swagger env (config self) of
        (cs, Inl e) \<Rightarrow> (self\<lparr>calls := calls self @ cs\<rparr>, Some e)
      | (cs, Inr (config1, specification)) \<Rightarrow>
          (let self1 = self\<lparr>config := config1, calls := calls self @ cs,
                 url_basepath := (case basePath specification of None \<Rightarrow> [] | Some b \<Rightarrow> b)\<rparr>;
               (url_endpoints, warn_c) = get_endpoints env specification
           in case report_enumeration self1 warn_c of
                (self2, Some e) \<Rightarrow> (self2, Some e)
              | (self2, None) \<Rightarrow>
                  crawl env specification (self2\<lparr>root_dataset_samples := []\<rparr>) url_endpoints))"

section \<open>What the source requests for an endpoint\<close>

text \<open>
  The address appended to the base address for an endpoint that is sampled over HTTP,
  read off the three branches of lines 257 to 327: the key itself, the forced example,
  or the guess.
\<close>

definition resolved_url ::
  "'m openapi_parser \<Rightarrow> 'm APISource \<Rightarrow> string \<Rightarrow> error + string" where
  "resolved_url env self endpoint_k =
     (if CHR ''{'' \<notin> set endpoint_k then Inr endpoint_k
      else case map_of (forced_examples (config self)) endpoint_k of
             None \<Rightarrow> try_guessing env endpoint_k (root_dataset_samples self)
           | Some attr_list \<Rightarrow> Inr (compose_url_attr env endpoint_k attr_list))"

text \<open>The response to the request for a resolved address.\<close>

definition fetched :: "'m openapi_parser \<Rightarrow> 'm APISource \<Rightarrow> string \<Rightarrow> response" where
  "fetched env self u = fst (endpoint_request env self (tot_url_of env self u))"

text \<open>
  The three requests of lines 260 to 327 in one: the request for the resolved address
  \<open>u\<close> and what follows it. They differ in one place, the write to
  \<^verbatim>\<open>root_dataset_samples\<close>, which only the request for a key without \<^verbatim>\<open>{\<close> has.
\<close>

definition fetch_endpoint ::
  "'m openapi_parser \<Rightarrow> 'm APISource \<Rightarrow> string \<Rightarrow> 'm DatasetSnapshot \<Rightarrow> string \<Rightarrow> string
     \<Rightarrow> 'm APISource \<times> error option" where
  "fetch_endpoint env self endpoint_k dataset_snapshot dataset_name u =
     (let response = fetched env self u;
          self1 = self\<lparr>calls := calls self @
                    [RequestCall (tot_url_of env self u) (endpoint_credentials (config self))]\<rparr>
      in if status_code response = 200 then
           (let fields2add = fst (extract_fields env response dataset_name);
                sample = snd (extract_fields env response dataset_name);
                self2 = (if CHR ''{'' \<in> set endpoint_k then self1
                         else self1\<lparr>root_dataset_samples :=
                                AList.update dataset_name sample (root_dataset_samples self)\<rparr>)
            in emit_fields env self2 endpoint_k dataset_snapshot dataset_name fields2add)
         else bad_response self1 (status_code response) endpoint_k)"

text \<open>
  An endpoint reaches the sampling over HTTP when it is not ignored, the declared schema
  gives no metadata and it has no truthy data of its own.
\<close>

definition reaches_fetch ::
  "'m openapi_parser \<Rightarrow> sw_dict \<Rightarrow> 'm APISource \<Rightarrow> string \<times> endpoint_dets \<Rightarrow> bool" where
  "reaches_fetch env specification self item =
     (fst item \<notin> set (ignore_endpoints (config self))
      \<and> declared_metadata env specification (dataset_name_of (fst item)) (snd item) = None
      \<and> get_data (snd item) = [])"

section \<open>The guess of an address, from the specification\<close>

text \<open>
  Modelled from the spec: \<^verbatim>\<open>try_guessing\<close> of \<^verbatim>\<open>openapi_parser\<close>, which the source
  imports and which is not among the source files. The specification (4.3) says: look
  in the sample cache for a dataset whose name is an ancestor of the path, take the
  value of one representative key of that sample (an \<^verbatim>\<open>id\<close> field, say) and put it in
  place of the placeholder; placeholders are resolved one by one, and when one of them
  has no qualifying sample the resolution fails with \<^verbatim>\<open>UnresolvableParameterError\<close>.
  The specification leaves the choice of the key open; here it is the key that has the
  placeholder's name, in the first ancestor sample that has such a key.
\<close>

definition is_placeholder :: "string \<Rightarrow> bool" where
  "is_placeholder seg = (length seg \<ge> 2 \<and> hd seg = CHR ''{'' \<and> last seg = CHR ''}'')"

definition placeholder_name :: "string \<Rightarrow> string" where
  "placeholder_name seg = butlast (tl seg)"

definition ancestor_samples :: "string \<Rightarrow> (string \<times> sample) list \<Rightarrow> sample list" where
  "ancestor_samples path_template cache =
     map snd (filter (\<lambda>entry. prefix (fst entry @ ''.'') (dataset_name_of path_template)) cache)"

fun first_value :: "string \<Rightarrow> sample list \<Rightarrow> string option" where
  "first_value key [] = None"
| "first_value key (s # ss) =
     (case map_of s key of Some v \<Rightarrow> Some v | None \<Rightarrow> first_value key ss)"

fun guess_segments :: "sample list \<Rightarrow> string list \<Rightarrow> string list option" where
  "guess_segments samples [] = Some []"
| "guess_segments samples (seg # segs) =
     (case (if is_placeholder seg then first_value (placeholder_name seg) samples
            else Some seg) of
        None \<Rightarrow> None
      | Some v \<Rightarrow> map_option ((#) v) (guess_segments samples segs))"

fun str_join :: "string \<Rightarrow> string list \<Rightarrow> string" where
  "str_join sep [] = []"
| "str_join sep [x] = x"
| "str_join sep (x # y # ys) = x @ sep @ str_join sep (y # ys)"

definition try_guessing_spec :: "string \<Rightarrow> (string \<times> sample) list \<Rightarrow> error + string" where
  "try_guessing_spec path_template cache =
     (case guess_segments (ancestor_samples path_template cache)
             (str_split ''/'' path_template) of
        None \<Rightarrow> Inl UnresolvableParameterError
      | Some segs \<Rightarrow> Inr (str_join ''/'' segs))"

section \<open>A parser and a source to run the model on\<close>

text \<open>
  A stand-in for the parser, used where a theorem is evaluated on a concrete run. The
  enumeration gives \<open>endpoints\<close> and the warnings \<open>warns\<close>; a request for an address
  listed in \<open>statuses\<close> is answered with that status and any other with 200; every body
  has the fields \<open>field_names\<close>; a forced example fills the placeholders in order; the guess
  is the one of the specification. The schema metadata is the pair of the dataset name
  and the fields.
\<close>

fun fill_segments :: "string list \<Rightarrow> string list \<Rightarrow> string list" where
  "fill_segments [] attr_list = []"
| "fill_segments (seg # segs) [] = seg # fill_segments segs []"
| "fill_segments (seg # segs) (a # as) =
     (if is_placeholder seg then a # fill_segments segs as
      else seg # fill_segments segs (a # as))"

definition example_parser ::
  "(string \<times> endpoint_dets) list \<Rightarrow> string list \<Rightarrow> (string \<times> int) list \<Rightarrow> string list
     \<Rightarrow> (string \<times> string list) openapi_parser" where
  "example_parser endpoints warns statuses field_names =
     \<lparr>get_tok = (\<lambda>u n p t m. Inr ''acquired''),
      get_swag_json = (\<lambda>u c f. Inr \<lparr>basePath = Some ''/api'', paths = JNull\<rparr>),
      get_endpoints = (\<lambda>sp. (endpoints, warns)),
      extract_metadata = (\<lambda>n sch sp. Some (n, map fst sch)),
      set_metadata = Pair,
      clean_url = (\<lambda>u. u),
      request_call = (\<lambda>u c. \<lparr>status_code = (case map_of statuses u of None \<Rightarrow> 200 | Some s \<Rightarrow> s),
                              body = JNull\<rparr>),
      extract_fields = (\<lambda>r n. (field_names, map (\<lambda>f. (f, ''1'')) field_names)),
      try_guessing = try_guessing_spec,
      compose_url_attr = (\<lambda>k attr_list. str_join ''/'' (fill_segments (str_split ''/'' k) attr_list)),
      make_tag_urn = (\<lambda>t. ''urn:li:tag:'' @ t)\<rparr>"

definition example_config ::
  "string list \<Rightarrow> (string \<times> string list) list \<Rightarrow> string option \<Rightarrow> (string \<times> string) list
     \<Rightarrow> OpenApiConfig" where
  "example_config ignored forced tok descriptor =
     \<lparr>name = ''shop'', url = ''http://h'', swagger_file = ''s.json'',
      ignore_endpoints = ignored, username = ''u'', password = ''p'',
      forced_examples = forced, token = tok, get_token = descriptor\<rparr>"

definition example_source :: "OpenApiConfig \<Rightarrow> (string \<times> string list) APISource" where
  "example_source cfg =
     \<lparr>config = cfg, platform = ''OpenApi'', report = [], url_basepath = [],
      root_dataset_samples = [], yielded = [], calls = []\<rparr>"

text \<open>An endpoint with a description only: no tags, no declared schema, no data.\<close>

definition plain_endpoint :: endpoint_dets where
  "plain_endpoint = \<lparr>description = ''d'', tags = [], schema = None, data = None\<rparr>"

section \<open>The dataset name\<close>

lemma replace_from_char: "replace_from [a] [b] 0 s = map (\<lambda>c. if c = a then b else c) s"
  by (induction s) auto

lemma str_replace_char: "str_replace [a] [b] s = map (\<lambda>c. if c = a then b else c) s"
  by (simp add: str_replace_def replace_from_char)

lemma str_replace_absent: "a \<notin> set s \<Longrightarrow> str_replace [a] [b] s = s"
  unfolding str_replace_char by (induction s) auto

lemma str_replace_removes: "a \<noteq> b \<Longrightarrow> a \<notin> set (str_replace [a] [b] s)"
  unfolding str_replace_char by (induction s) auto

lemma dataset_name_of_no_slash: "CHR ''/'' \<notin> set (dataset_name_of x)"
proof -
  have "CHR ''/'' \<notin> set (str_replace ''/'' ''.'' (drop 1 x))"
    by (rule str_replace_removes) simp
  moreover have "set (butlast n) \<subseteq> set n" for n :: string
    by (auto dest: in_set_butlastD)
  ultimately show ?thesis
    by (auto simp: dataset_name_of_def Let_def)
qed

lemma dataset_name_of_shorter:
  assumes "CHR ''/'' \<notin> set y"
  shows "dataset_name_of y \<noteq> y"
proof (cases y)
  case Nil
  then show ?thesis by (simp add: dataset_name_of_def str_replace_def)
next
  case (Cons c cs)
  with assms have cs: "str_replace ''/'' ''.'' cs = cs"
    by (simp add: str_replace_absent)
  show ?thesis
  proof (cases "cs = []")
    case True
    with Cons show ?thesis by (simp add: dataset_name_of_def str_replace_def)
  next
    case False
    have "length (dataset_name_of y) \<le> length cs"
      using Cons cs False by (simp add: dataset_name_of_def Let_def)
    with Cons show ?thesis by auto
  qed
qed

lemma dataset_name_of_path_form:
  assumes "CHR ''/'' \<notin> set y" "y \<noteq> []" "last y \<noteq> CHR ''.''"
  shows "dataset_name_of (CHR ''/'' # y) = y"
  using assms by (simp add: dataset_name_of_def Let_def str_replace_absent)

text \<open>
  C4, as amended. The dataset name of \<open>''/''\<close> is \<open>''root''\<close> and that of \<open>''/a/b/''\<close> is
  \<open>''a.b''\<close>. The derivation is not idempotent: it always drops the first character of
  its argument, and a derived name has no leading separator to lose, so deriving the
  name of a derived name never gives that name back. Deriving from the name put back
  into path form, with the separator in front, gives the name again whenever the name
  is not empty and does not end in a dot.
\<close>

theorem dataset_name_rederivation:
  "dataset_name_of ''/'' = ''root'' \<and> dataset_name_of ''/a/b/'' = ''a.b''
   \<and> dataset_name_of (dataset_name_of x) \<noteq> dataset_name_of x
   \<and> (dataset_name_of x \<noteq> [] \<and> last (dataset_name_of x) \<noteq> CHR ''.''
        \<longrightarrow> dataset_name_of (CHR ''/'' # dataset_name_of x) = dataset_name_of x)"
proof -
  have "dataset_name_of ''/'' = ''root''"
    by (simp add: dataset_name_of_def str_replace_def)
  moreover have "dataset_name_of ''/a/b/'' = ''a.b''"
    by (simp add: dataset_name_of_def str_replace_def)
  moreover have "dataset_name_of (dataset_name_of x) \<noteq> dataset_name_of x"
    by (rule dataset_name_of_shorter) (rule dataset_name_of_no_slash)
  moreover have "dataset_name_of (CHR ''/'' # dataset_name_of x) = dataset_name_of x"
    if "dataset_name_of x \<noteq> []" "last (dataset_name_of x) \<noteq> CHR ''.''"
    using dataset_name_of_path_form [OF dataset_name_of_no_slash that] .
  ultimately show ?thesis by blast
qed

theorem dataset_name_rederivation_witness:
  "dataset_name_of ''/a/b/'' \<noteq> [] \<and> last (dataset_name_of ''/a/b/'') \<noteq> CHR ''.''
   \<and> dataset_name_of (CHR ''/'' # dataset_name_of ''/a/b/'') = ''a.b''"
proof -
  have v: "dataset_name_of ''/a/b/'' = ''a.b''"
    by (simp add: dataset_name_of_def str_replace_def)
  have h: "dataset_name_of ''/a/b/'' \<noteq> [] \<and> last (dataset_name_of ''/a/b/'') \<noteq> CHR ''.''"
    by (simp add: v)
  with dataset_name_rederivation [of "''/a/b/''"]
  have "dataset_name_of (CHR ''/'' # dataset_name_of ''/a/b/'') = dataset_name_of ''/a/b/''"
    by blast
  with h v show ?thesis by simp
qed

text \<open>
  C4 as stated fails: deriving again from \<open>''a.b''\<close>, the name of \<open>''/a/b/''\<close>, gives
  \<open>''.b''\<close>.
\<close>

theorem dataset_name_not_idempotent:
  "dataset_name_of (dataset_name_of ''/a/b/'') = ''.b''
   \<and> dataset_name_of (dataset_name_of ''/a/b/'') \<noteq> dataset_name_of ''/a/b/''"
  by (simp add: dataset_name_of_def str_replace_def)

section \<open>One item of the loop\<close>

lemma init_dataset_name: "snd (init_dataset env self k dets) = dataset_name_of k"
  by (simp add: init_dataset_def Let_def)

lemma sample_endpoint_resolved:
  "sample_endpoint env self k dets snap nm =
     (if get_data dets \<noteq> [] then
        (yield_wu self snap nm (set_metadata env nm (get_data dets)), None)
      else case resolved_url env self k of
             Inl e \<Rightarrow> (self, Some e)
           | Inr u \<Rightarrow> fetch_endpoint env self k snap nm u)"
  by (simp add: sample_endpoint_def resolved_url_def fetch_endpoint_def fetched_def
      endpoint_request_def Let_def split: option.splits prod.splits sum.splits)

lemma process_endpoint_cases:
  "process_endpoint env sp self (k, dets) =
     (if k \<in> set (ignore_endpoints (config self)) then (self, None)
      else case declared_metadata env sp (dataset_name_of k) dets of
             Some md \<Rightarrow>
               (case data dets of
                  None \<Rightarrow> (self, Some (KeyError ''data''))
                | Some d \<Rightarrow> (yield_wu self (fst (init_dataset env self k dets)) (dataset_name_of k)
                               (set_metadata env (dataset_name_of k) d), None))
           | None \<Rightarrow>
               if get_data dets \<noteq> [] then
                 (yield_wu self (fst (init_dataset env self k dets)) (dataset_name_of k)
                    (set_metadata env (dataset_name_of k) (get_data dets)), None)
               else case resolved_url env self k of
                      Inl e \<Rightarrow> (self, Some e)
                    | Inr u \<Rightarrow> fetch_endpoint env self k (fst (init_dataset env self k dets))
                                 (dataset_name_of k) u)"
proof -
  obtain snap nm where i: "init_dataset env self k dets = (snap, nm)"
    by (cases "init_dataset env self k dets")
  with init_dataset_name [of env self k dets] have nm: "nm = dataset_name_of k"
    by simp
  have snap: "fst (init_dataset env self k dets) = snap"
    using i by simp
  show ?thesis
    unfolding snap
    by (simp add: process_endpoint_def i nm sample_endpoint_resolved split: option.splits)
qed

lemma process_endpoint_fetch:
  assumes "reaches_fetch env sp self (k, dets)" and "resolved_url env self k = Inr u"
  shows "process_endpoint env sp self (k, dets) =
           fetch_endpoint env self k (fst (init_dataset env self k dets)) (dataset_name_of k) u"
  using assms by (simp add: process_endpoint_cases reaches_fetch_def)

lemma process_endpoint_unresolved:
  assumes "reaches_fetch env sp self (k, dets)" and "resolved_url env self k = Inl e"
  shows "process_endpoint env sp self (k, dets) = (self, Some e)"
  using assms by (simp add: process_endpoint_cases reaches_fetch_def)

lemma process_endpoint_ignored:
  "k \<in> set (ignore_endpoints (config self)) \<Longrightarrow> process_endpoint env sp self (k, dets) = (self, None)"
  by (simp add: process_endpoint_cases)

lemma process_endpoint_declared:
  assumes "k \<notin> set (ignore_endpoints (config self))"
    and "declared_metadata env sp (dataset_name_of k) dets = Some md"
  shows "process_endpoint env sp self (k, dets) =
    (case data dets of
       None \<Rightarrow> (self, Some (KeyError ''data''))
     | Some d \<Rightarrow> (yield_wu self (fst (init_dataset env self k dets)) (dataset_name_of k)
                    (set_metadata env (dataset_name_of k) d), None))"
  using assms by (simp add: process_endpoint_cases)

lemma codes_mapping_unlisted:
  "s \<notin> {400, 403, 404, 500, 504} \<Longrightarrow> map_of codes_mapping s = None"
  by (simp add: codes_mapping_def)

lemma bad_response_unlisted:
  "s \<notin> {400, 403, 404, 500, 504} \<Longrightarrow> bad_response self s k = (self, Some (UnableToRetrieve s k))"
  by (simp add: bad_response_def report_bad_response_def codes_mapping_unlisted)

lemma bad_response_listed:
  "s \<in> {400, 403, 404, 500, 504} \<Longrightarrow> bad_response self s k = (self, None)"
  by (auto simp: bad_response_def report_bad_response_def codes_mapping_def)

lemma bad_response_state: "fst (bad_response self s k) = self"
  by (simp add: bad_response_def report_bad_response_def split: option.splits)

lemma emit_fields_frame:
  "config (fst (emit_fields env self k snap nm fs)) = config self
   \<and> calls (fst (emit_fields env self k snap nm fs)) = calls self
   \<and> root_dataset_samples (fst (emit_fields env self k snap nm fs)) = root_dataset_samples self"
  by (simp add: emit_fields_def yield_wu_def report_warning_def Let_def)

lemma fetch_endpoint_frame:
  "config (fst (fetch_endpoint env self k snap nm u)) = config self
   \<and> calls (fst (fetch_endpoint env self k snap nm u)) =
       calls self @ [RequestCall (tot_url_of env self u) (endpoint_credentials (config self))]"
  by (simp add: fetch_endpoint_def Let_def emit_fields_frame bad_response_state)

lemma fetch_endpoint_samples:
  "root_dataset_samples (fst (fetch_endpoint env self k snap nm u)) =
     (if CHR ''{'' \<notin> set k \<and> status_code (fetched env self u) = 200
      then AList.update nm (snd (extract_fields env (fetched env self u) nm))
             (root_dataset_samples self)
      else root_dataset_samples self)"
  by (simp add: fetch_endpoint_def Let_def emit_fields_frame bad_response_state)

lemma yield_wu_frame:
  "config (yield_wu self snap nm md) = config self
   \<and> calls (yield_wu self snap nm md) = calls self
   \<and> root_dataset_samples (yield_wu self snap nm md) = root_dataset_samples self
   \<and> report (yield_wu self snap nm md) = report self"
  by (simp add: yield_wu_def)

lemma process_endpoint_config: "config (fst (process_endpoint env sp self item)) = config self"
  by (cases item)
    (simp add: process_endpoint_cases yield_wu_frame fetch_endpoint_frame
      split: option.splits sum.splits)

lemma process_endpoint_calls:
  "\<exists>rs. calls (fst (process_endpoint env sp self item)) = calls self @ rs
        \<and> (\<forall>c \<in> set rs. \<exists>u. c = RequestCall u (endpoint_credentials (config self)))"
  by (cases item)
    (simp add: process_endpoint_cases yield_wu_frame fetch_endpoint_frame
      split: option.splits sum.splits)

section \<open>The whole loop\<close>

lemma crawl_config: "config (fst (crawl env sp self items)) = config self"
proof (induction items arbitrary: self)
  case Nil
  then show ?case by simp
next
  case (Cons item items)
  obtain self1 r where p: "process_endpoint env sp self item = (self1, r)"
    by (cases "process_endpoint env sp self item")
  then have c: "config self1 = config self"
    using process_endpoint_config [of env sp self item] by simp
  show ?case
  proof (cases r)
    case None
    with p c Cons.IH [of self1] show ?thesis by simp
  next
    case (Some e)
    with p c show ?thesis by simp
  qed
qed

lemma crawl_calls:
  "\<exists>rs. calls (fst (crawl env sp self items)) = calls self @ rs
        \<and> (\<forall>c \<in> set rs. \<exists>u. c = RequestCall u (endpoint_credentials (config self)))"
proof (induction items arbitrary: self)
  case Nil
  then show ?case by simp
next
  case (Cons item items)
  obtain self1 r where p: "process_endpoint env sp self item = (self1, r)"
    by (cases "process_endpoint env sp self item")
  then have c: "config self1 = config self"
    using process_endpoint_config [of env sp self item] by simp
  from p process_endpoint_calls [of env sp self item]
  obtain rs where rs: "calls self1 = calls self @ rs"
    "\<forall>c \<in> set rs. \<exists>u. c = RequestCall u (endpoint_credentials (config self))"
    by auto
  show ?case
  proof (cases r)
    case None
    from Cons.IH [of self1] c obtain rs' where
      "calls (fst (crawl env sp self1 items)) = calls self1 @ rs'"
      "\<forall>c \<in> set rs'. \<exists>u. c = RequestCall u (endpoint_credentials (config self))"
      by auto
    with rs have "calls (fst (crawl env sp self1 items)) = calls self @ (rs @ rs')
      \<and> (\<forall>c \<in> set (rs @ rs'). \<exists>u. c = RequestCall u (endpoint_credentials (config self)))"
      by auto
    with p None show ?thesis by auto
  next
    case (Some e)
    with p rs show ?thesis by auto
  qed
qed

lemma crawl_append:
  "crawl env sp self (xs @ ys) =
     (case crawl env sp self xs of
        (self1, Some e) \<Rightarrow> (self1, Some e)
      | (self1, None) \<Rightarrow> crawl env sp self1 ys)"
  by (induction xs arbitrary: self) (auto split: prod.splits option.splits)

lemma report_enumeration_frame:
  "config (fst (report_enumeration self ws)) = config self
   \<and> calls (fst (report_enumeration self ws)) = calls self"
  by (induction ws arbitrary: self) (auto simp: report_warning_def split: list.splits)

lemma report_enumeration_config:
  "report (fst (report_enumeration (self\<lparr>config := c\<rparr>) ws)) = report (fst (report_enumeration self ws))"
proof (induction ws arbitrary: self)
  case Nil
  then show ?case by simp
next
  case (Cons w ws)
  have "report_warning (self\<lparr>config := c\<rparr>) k r = (report_warning self k r)\<lparr>config := c\<rparr>" for k r
    by (simp add: report_warning_def)
  with Cons show ?case by (auto split: list.splits)
qed

lemma guess_segments_none:
  "\<exists>seg \<in> set segs. is_placeholder seg \<Longrightarrow> guess_segments [] segs = None"
  by (induction segs) auto

lemma get_swagger_token:
  assumes "token cfg = Some t"
  shows "get_swagger env cfg =
         ([GetSwagJson (url cfg) (Token t) (swagger_file cfg)],
          (case get_swag_json env (url cfg) (Token t) (swagger_file cfg) of
             Inl e \<Rightarrow> Inl e
           | Inr sw \<Rightarrow> Inr (cfg, sw)))"
proof -
  have "cfg\<lparr>token := Some t\<rparr> = cfg"
    using assms by (cases cfg) simp
  with assms show ?thesis
    by (simp add: get_swagger_def acquire_token_def split: sum.splits)
qed

text \<open>The definitions a concrete run is evaluated with.\<close>

lemmas example_defs = example_parser_def example_config_def example_source_def plain_endpoint_def

lemmas step_defs = reaches_fetch_def declared_metadata_def get_data_def resolved_url_def
  fetched_def endpoint_request_def tot_url_of_def endpoint_credentials_def

lemmas run_defs = get_workunits_internal_def get_swagger_def acquire_token_def
  process_endpoint_def sample_endpoint_def init_dataset_def dataset_name_of_def str_replace_def
  str_split_def emit_fields_def bad_response_def report_bad_response_def codes_mapping_def
  yield_wu_def build_wu_def report_warning_def try_guessing_spec_def ancestor_samples_def
  is_placeholder_def placeholder_name_def Let_def

section \<open>Responses that are not 200\<close>

text \<open>
  C1. For an endpoint that is sampled over HTTP and answered with one of the codes 400,
  403, 404, 500, 504, the claim asks for a warning with the reason of that code, no
  work unit, and the loop going on. The source does the last two and not the first:
  \<^verbatim>\<open>report_bad_response\<close> looks the reason up and returns without passing it to
  \<^verbatim>\<open>report_warning\<close>, so the report is left as it was. What the source does:
\<close>

theorem listed_status_not_reported:
  assumes "reaches_fetch env sp self (k, dets)"
    and "resolved_url env self k = Inr u"
    and "status_code (fetched env self u) \<in> {400, 403, 404, 500, 504}"
  shows "process_endpoint env sp self (k, dets) =
           (self\<lparr>calls := calls self @
               [RequestCall (tot_url_of env self u) (endpoint_credentials (config self))]\<rparr>, None)
         \<and> report (fst (process_endpoint env sp self (k, dets))) = report self
         \<and> yielded (fst (process_endpoint env sp self (k, dets))) = yielded self"
proof -
  have "status_code (fetched env self u) \<noteq> 200"
    using assms(3) by auto
  then have "process_endpoint env sp self (k, dets) =
           (self\<lparr>calls := calls self @
               [RequestCall (tot_url_of env self u) (endpoint_credentials (config self))]\<rparr>, None)"
    by (simp add: process_endpoint_fetch [OF assms(1,2)] fetch_endpoint_def Let_def
        bad_response_listed [OF assms(3)])
  then show ?thesis by simp
qed

text \<open>
  The theorem of C1 on a request answered with 404.
\<close>

theorem listed_status_not_reported_witness:
  "status_code (fetched
       (example_parser [] [] [(''http://h/users'', 404)] [''id''])
       (example_source (example_config [] [] None [])) ''/users'') = 404
   \<and> report (fst (process_endpoint
       (example_parser [] [] [(''http://h/users'', 404)] [''id''])
       \<lparr>basePath = None, paths = JNull\<rparr>
       (example_source (example_config [] [] None []))
       (''/users'', plain_endpoint))) = []
   \<and> yielded (fst (process_endpoint
       (example_parser [] [] [(''http://h/users'', 404)] [''id''])
       \<lparr>basePath = None, paths = JNull\<rparr>
       (example_source (example_config [] [] None []))
       (''/users'', plain_endpoint))) = []"
proof -
  let ?P = "example_parser [] [] [(''http://h/users'', 404)] [''id'']"
  let ?S = "example_source (example_config [] [] None [])"
  let ?sp = "\<lparr>basePath = None, paths = JNull\<rparr>"
  have h1: "reaches_fetch ?P ?sp ?S (''/users'', plain_endpoint)"
    by (simp add: example_defs step_defs)
  have h2: "resolved_url ?P ?S ''/users'' = Inr ''/users''"
    by (simp add: example_defs step_defs)
  have h3: "status_code (fetched ?P ?S ''/users'') = 404"
    by (simp add: example_defs step_defs)
  then have h4: "status_code (fetched ?P ?S ''/users'') \<in> {400, 403, 404, 500, 504}"
    by simp
  from listed_status_not_reported [OF h1 h2 h4]
  have "report (fst (process_endpoint ?P ?sp ?S (''/users'', plain_endpoint))) = report ?S"
    and "yielded (fst (process_endpoint ?P ?sp ?S (''/users'', plain_endpoint))) = yielded ?S"
    by simp_all
  with h3 show ?thesis by (simp add: example_source_def)
qed

text \<open>
  A whole run on the endpoints \<open>''/users''\<close>, answered with 404, and \<open>''/items''\<close>,
  answered with 200: the run ends without an exception, \<open>''/items''\<close> is emitted, and
  the report is empty.
\<close>

theorem not_found_leaves_no_warning:
  "report (fst (get_workunits_internal
       (example_parser [(''/users'', plain_endpoint), (''/items'', plain_endpoint)] []
          [(''http://h/api/users'', 404)] [''id''])
       (example_source (example_config [] [] None [])))) = []
   \<and> snd (get_workunits_internal
       (example_parser [(''/users'', plain_endpoint), (''/items'', plain_endpoint)] []
          [(''http://h/api/users'', 404)] [''id''])
       (example_source (example_config [] [] None []))) = None
   \<and> map wu_id (yielded (fst (get_workunits_internal
       (example_parser [(''/users'', plain_endpoint), (''/items'', plain_endpoint)] []
          [(''http://h/api/users'', 404)] [''id''])
       (example_source (example_config [] [] None []))))) = [''items'']"
  by (simp add: example_defs run_defs step_defs)

text \<open>
  C2, as amended. A response with a status from 201 to 299 does not take the path of
  status 200: no fields are inferred, no work unit is emitted for the endpoint, and
  \<^verbatim>\<open>report_bad_response\<close> raises the exception that names the code and the key. No
  handler catches it, so the run ends there and the endpoints after it are not
  processed. The request itself has been sent.
\<close>

theorem other_2xx_is_fatal:
  assumes "reaches_fetch env sp self (k, dets)"
    and "resolved_url env self k = Inr u"
    and "200 < status_code (fetched env self u)" and "status_code (fetched env self u) < 300"
  shows "process_endpoint env sp self (k, dets) =
           (self\<lparr>calls := calls self @
               [RequestCall (tot_url_of env self u) (endpoint_credentials (config self))]\<rparr>,
            Some (UnableToRetrieve (status_code (fetched env self u)) k))
         \<and> crawl env sp self ((k, dets) # items) = process_endpoint env sp self (k, dets)"
proof -
  have "status_code (fetched env self u) \<notin> {400, 403, 404, 500, 504}"
    using assms(3,4) by auto
  then have "process_endpoint env sp self (k, dets) =
           (self\<lparr>calls := calls self @
               [RequestCall (tot_url_of env self u) (endpoint_credentials (config self))]\<rparr>,
            Some (UnableToRetrieve (status_code (fetched env self u)) k))"
    using assms(3)
    by (simp add: process_endpoint_fetch [OF assms(1,2)] fetch_endpoint_def Let_def
        bad_response_unlisted)
  then show ?thesis by simp
qed

text \<open>
  The theorem of C2 on a request answered with 201.
\<close>

theorem other_2xx_is_fatal_witness:
  "status_code (fetched
       (example_parser [] [] [(''http://h/users'', 201)] [''id''])
       (example_source (example_config [] [] None [])) ''/users'') = 201
   \<and> crawl (example_parser [] [] [(''http://h/users'', 201)] [''id''])
       \<lparr>basePath = None, paths = JNull\<rparr>
       (example_source (example_config [] [] None []))
       [(''/users'', plain_endpoint), (''/items'', plain_endpoint)] =
     ((example_source (example_config [] [] None []))
        \<lparr>calls := [RequestCall ''http://h/users'' (BasicAuth ''u'' ''p'')]\<rparr>,
      Some (UnableToRetrieve 201 ''/users''))"
proof -
  let ?P = "example_parser [] [] [(''http://h/users'', 201)] [''id'']"
  let ?S = "example_source (example_config [] [] None [])"
  let ?sp = "\<lparr>basePath = None, paths = JNull\<rparr>"
  have h1: "reaches_fetch ?P ?sp ?S (''/users'', plain_endpoint)"
    by (simp add: example_defs step_defs)
  have h2: "resolved_url ?P ?S ''/users'' = Inr ''/users''"
    by (simp add: example_defs step_defs)
  have h3: "status_code (fetched ?P ?S ''/users'') = 201"
    by (simp add: example_defs step_defs)
  then have h4: "200 < status_code (fetched ?P ?S ''/users'')"
    and h5: "status_code (fetched ?P ?S ''/users'') < 300"
    by simp_all
  from other_2xx_is_fatal [OF h1 h2 h4 h5, of "[(''/items'', plain_endpoint)]"]
  have "crawl ?P ?sp ?S [(''/users'', plain_endpoint), (''/items'', plain_endpoint)] =
      (?S\<lparr>calls := calls ?S @
          [RequestCall (tot_url_of ?P ?S ''/users'') (endpoint_credentials (config ?S))]\<rparr>,
       Some (UnableToRetrieve (status_code (fetched ?P ?S ''/users'')) ''/users''))"
    by simp
  with h3 show ?thesis by (simp add: example_defs step_defs)
qed

text \<open>
  C2 as stated fails: in a whole run, the answer 201 for \<open>''/users''\<close> ends the run with
  the exception and nothing is emitted.
\<close>

theorem created_status_aborts:
  "snd (get_workunits_internal
       (example_parser [(''/users'', plain_endpoint), (''/items'', plain_endpoint)] []
          [(''http://h/api/users'', 201)] [''id''])
       (example_source (example_config [] [] None []))) = Some (UnableToRetrieve 201 ''/users'')
   \<and> yielded (fst (get_workunits_internal
       (example_parser [(''/users'', plain_endpoint), (''/items'', plain_endpoint)] []
          [(''http://h/api/users'', 201)] [''id''])
       (example_source (example_config [] [] None [])))) = []"
  by (simp add: example_defs run_defs step_defs)

section \<open>Placeholders without a sample\<close>

text \<open>
  C3, as amended. Take an endpoint that is sampled over HTTP, whose key has a
  placeholder and no forced example, when the cache has no sample of an ancestor and
  the guess is the one of the specification. The resolution fails with
  \<^verbatim>\<open>UnresolvableParameterError\<close>; the source calls \<^verbatim>\<open>try_guessing\<close> outside of any
  handler, so the failure ends the run: nothing is requested, warned about or emitted
  for the endpoint, and the endpoints after it are not processed.
\<close>

theorem unresolvable_ends_crawl:
  assumes "reaches_fetch env sp self (k, dets)"
    and "CHR ''{'' \<in> set k"
    and "\<exists>seg \<in> set (str_split ''/'' k). is_placeholder seg"
    and "map_of (forced_examples (config self)) k = None"
    and "ancestor_samples k (root_dataset_samples self) = []"
    and "try_guessing env k (root_dataset_samples self) =
           try_guessing_spec k (root_dataset_samples self)"
  shows "try_guessing_spec k (root_dataset_samples self) = Inl UnresolvableParameterError
     \<and> process_endpoint env sp self (k, dets) = (self, Some UnresolvableParameterError)
     \<and> crawl env sp self ((k, dets) # items) = (self, Some UnresolvableParameterError)"
proof -
  have g: "try_guessing_spec k (root_dataset_samples self) = Inl UnresolvableParameterError"
    using assms(3,5) by (simp add: try_guessing_spec_def guess_segments_none)
  with assms(2,4,6) have "resolved_url env self k = Inl UnresolvableParameterError"
    by (simp add: resolved_url_def)
  with assms(1) have "process_endpoint env sp self (k, dets) = (self, Some UnresolvableParameterError)"
    by (rule process_endpoint_unresolved)
  with g show ?thesis by simp
qed

text \<open>
  The theorem of C3 on \<open>''/users/{id}''\<close> with an empty cache.
\<close>

theorem unresolvable_ends_crawl_witness:
  "ancestor_samples ''/users/{id}''
       (root_dataset_samples (example_source (example_config [] [] None []))) = []
   \<and> crawl (example_parser [] [] [] [''id'']) \<lparr>basePath = None, paths = JNull\<rparr>
       (example_source (example_config [] [] None []))
       [(''/users/{id}'', plain_endpoint), (''/items'', plain_endpoint)] =
     (example_source (example_config [] [] None []), Some UnresolvableParameterError)"
proof -
  let ?P = "example_parser [] [] [] [''id'']"
  let ?S = "example_source (example_config [] [] None [])"
  let ?sp = "\<lparr>basePath = None, paths = JNull\<rparr>"
  have h1: "reaches_fetch ?P ?sp ?S (''/users/{id}'', plain_endpoint)"
    by (simp add: example_defs step_defs)
  have h2: "CHR ''{'' \<in> set ''/users/{id}''"
    by simp
  have h3: "\<exists>seg \<in> set (str_split ''/'' ''/users/{id}''). is_placeholder seg"
    by (simp add: str_split_def is_placeholder_def)
  have h4: "map_of (forced_examples (config ?S)) ''/users/{id}'' = None"
    by (simp add: example_defs)
  have h5: "ancestor_samples ''/users/{id}'' (root_dataset_samples ?S) = []"
    by (simp add: example_defs ancestor_samples_def)
  have h6: "try_guessing ?P ''/users/{id}'' (root_dataset_samples ?S) =
      try_guessing_spec ''/users/{id}'' (root_dataset_samples ?S)"
    by (simp add: example_defs)
  from unresolvable_ends_crawl [OF h1 h2 h3 h4 h5 h6, of "[(''/items'', plain_endpoint)]"]
  have "crawl ?P ?sp ?S [(''/users/{id}'', plain_endpoint), (''/items'', plain_endpoint)] =
      (?S, Some UnresolvableParameterError)"
    by simp
  with h5 show ?thesis by simp
qed

text \<open>
  C3 as stated fails: a whole run on \<open>''/users/{id}''\<close> followed by \<open>''/items''\<close> ends
  with the exception, with an empty report and nothing emitted.
\<close>

theorem unresolvable_aborts_crawl:
  "snd (get_workunits_internal
       (example_parser [(''/users/{id}'', plain_endpoint), (''/items'', plain_endpoint)] [] []
          [''id''])
       (example_source (example_config [] [] None []))) = Some UnresolvableParameterError
   \<and> report (fst (get_workunits_internal
       (example_parser [(''/users/{id}'', plain_endpoint), (''/items'', plain_endpoint)] [] []
          [''id''])
       (example_source (example_config [] [] None [])))) = []
   \<and> yielded (fst (get_workunits_internal
       (example_parser [(''/users/{id}'', plain_endpoint), (''/items'', plain_endpoint)] [] []
          [''id''])
       (example_source (example_config [] [] None [])))) = []"
  by (simp add: example_defs run_defs step_defs)

section \<open>The sample cache\<close>

text \<open>
  C5. One item of the loop changes \<^verbatim>\<open>root_dataset_samples\<close> in one case only: the
  endpoint is sampled over HTTP, its key has no \<^verbatim>\<open>{\<close>, and the response has status
  200; the sample of the response is then stored under the dataset name of the key. In
  every other case, and so for every key with a placeholder, guessed or forced and
  whatever the response, the cache is what it was.
\<close>

theorem sample_cache_frame:
  "root_dataset_samples (fst (process_endpoint env sp self (k, dets))) =
     (if reaches_fetch env sp self (k, dets) \<and> CHR ''{'' \<notin> set k
         \<and> status_code (fetched env self k) = 200
      then AList.update (dataset_name_of k)
             (snd (extract_fields env (fetched env self k) (dataset_name_of k)))
             (root_dataset_samples self)
      else root_dataset_samples self)
   \<and> (CHR ''{'' \<in> set k \<longrightarrow>
        root_dataset_samples (fst (process_endpoint env sp self (k, dets))) =
          root_dataset_samples self)"
proof -
  have concrete: "resolved_url env self k = Inr k" if "CHR ''{'' \<notin> set k"
    using that by (simp add: resolved_url_def)
  have "root_dataset_samples (fst (process_endpoint env sp self (k, dets))) =
     (if reaches_fetch env sp self (k, dets) \<and> CHR ''{'' \<notin> set k
         \<and> status_code (fetched env self k) = 200
      then AList.update (dataset_name_of k)
             (snd (extract_fields env (fetched env self k) (dataset_name_of k)))
             (root_dataset_samples self)
      else root_dataset_samples self)"
    by (auto simp: process_endpoint_cases reaches_fetch_def yield_wu_frame
        fetch_endpoint_samples concrete split: option.splits sum.splits)
  then show ?thesis by simp
qed

text \<open>
  The theorem of C5 on a forced example, which leaves the cache empty, and on a
  listing endpoint, which fills it.
\<close>

theorem sample_cache_frame_witness:
  "CHR ''{'' \<in> set ''/items/{k}''
   \<and> snd (process_endpoint (example_parser [] [] [] [''id''])
       \<lparr>basePath = None, paths = JNull\<rparr>
       (example_source (example_config [] [(''/items/{k}'', [''42''])] None []))
       (''/items/{k}'', plain_endpoint)) = None
   \<and> calls (fst (process_endpoint (example_parser [] [] [] [''id''])
       \<lparr>basePath = None, paths = JNull\<rparr>
       (example_source (example_config [] [(''/items/{k}'', [''42''])] None []))
       (''/items/{k}'', plain_endpoint))) = [RequestCall ''http://h/items/42'' (BasicAuth ''u'' ''p'')]
   \<and> root_dataset_samples (fst (process_endpoint (example_parser [] [] [] [''id''])
       \<lparr>basePath = None, paths = JNull\<rparr>
       (example_source (example_config [] [(''/items/{k}'', [''42''])] None []))
       (''/items/{k}'', plain_endpoint))) = []
   \<and> root_dataset_samples (fst (process_endpoint (example_parser [] [] [] [''id''])
       \<lparr>basePath = None, paths = JNull\<rparr>
       (example_source (example_config [] [(''/items/{k}'', [''42''])] None []))
       (''/items'', plain_endpoint))) = [(''items'', [(''id'', ''1'')])]"
proof -
  let ?P = "example_parser [] [] [] [''id'']"
  let ?S = "example_source (example_config [] [(''/items/{k}'', [''42''])] None [])"
  let ?sp = "\<lparr>basePath = None, paths = JNull\<rparr>"
  have h: "CHR ''{'' \<in> set ''/items/{k}''"
    by simp
  with sample_cache_frame [of ?P ?sp ?S "''/items/{k}''" plain_endpoint]
  have a: "root_dataset_samples (fst (process_endpoint ?P ?sp ?S (''/items/{k}'', plain_endpoint)))
      = root_dataset_samples ?S"
    by blast
  have c: "reaches_fetch ?P ?sp ?S (''/items'', plain_endpoint) \<and> CHR ''{'' \<notin> set ''/items''
      \<and> status_code (fetched ?P ?S ''/items'') = 200"
    by (simp add: example_defs step_defs)
  with sample_cache_frame [of ?P ?sp ?S "''/items''" plain_endpoint]
  have "root_dataset_samples (fst (process_endpoint ?P ?sp ?S (''/items'', plain_endpoint)))
      = AList.update (dataset_name_of ''/items'')
          (snd (extract_fields ?P (fetched ?P ?S ''/items'') (dataset_name_of ''/items'')))
          (root_dataset_samples ?S)"
    by simp
  then have b: "root_dataset_samples (fst (process_endpoint ?P ?sp ?S (''/items'', plain_endpoint)))
      = [(''items'', [(''id'', ''1'')])]"
    by (simp add: example_defs dataset_name_of_def str_replace_def)
  have d: "snd (process_endpoint ?P ?sp ?S (''/items/{k}'', plain_endpoint)) = None
    \<and> calls (fst (process_endpoint ?P ?sp ?S (''/items/{k}'', plain_endpoint))) =
        [RequestCall ''http://h/items/42'' (BasicAuth ''u'' ''p'')]"
    by (simp add: example_defs run_defs step_defs)
  from a b d show ?thesis by (simp add: example_source_def)
qed

section \<open>Ignored endpoints\<close>

text \<open>
  C6, as amended. An endpoint whose key is in \<^verbatim>\<open>ignore_endpoints\<close> is skipped by the loop
  before anything is done for it: its item leaves the state as it is, so no work unit,
  no request and no warning of the loop belongs to it, and a run over an enumeration
  with the item is the run over the enumeration without it. The warnings of the
  enumeration are another matter: they are reported before the loop, and what is
  reported does not depend on the ignore list.
\<close>

theorem ignored_endpoint_skipped:
  assumes "k \<in> set (ignore_endpoints (config self))"
  shows "process_endpoint env sp self (k, dets) = (self, None)
     \<and> crawl env sp self (before @ (k, dets) # after) = crawl env sp self (before @ after)
     \<and> report (fst (report_enumeration
           (self\<lparr>config := (config self)\<lparr>ignore_endpoints := others\<rparr>\<rparr>) ws)) =
         report (fst (report_enumeration self ws))"
proof -
  have "crawl env sp self (before @ (k, dets) # after) = crawl env sp self (before @ after)"
  proof (cases "crawl env sp self before")
    case (Pair self1 r)
    have "config self1 = config self"
      using crawl_config [of env sp self before] Pair by simp
    with assms have "process_endpoint env sp self1 (k, dets) = (self1, None)"
      by (simp add: process_endpoint_ignored)
    with Pair show ?thesis by (simp add: crawl_append split: option.splits)
  qed
  with assms show ?thesis
    by (simp add: process_endpoint_ignored report_enumeration_config)
qed

text \<open>
  The theorem of C6 on an ignored endpoint between two others.
\<close>

theorem ignored_endpoint_skipped_witness:
  "''/ignored'' \<in> set (ignore_endpoints (config (example_source (example_config [''/ignored''] [] None []))))
   \<and> crawl (example_parser [] [] [] [''id'']) \<lparr>basePath = None, paths = JNull\<rparr>
       (example_source (example_config [''/ignored''] [] None []))
       ([(''/users'', plain_endpoint)] @ (''/ignored'', plain_endpoint) # [(''/items'', plain_endpoint)])
     = crawl (example_parser [] [] [] [''id'']) \<lparr>basePath = None, paths = JNull\<rparr>
       (example_source (example_config [''/ignored''] [] None []))
       ([(''/users'', plain_endpoint)] @ [(''/items'', plain_endpoint)])
   \<and> map wu_id (yielded (fst (crawl (example_parser [] [] [] [''id''])
       \<lparr>basePath = None, paths = JNull\<rparr>
       (example_source (example_config [''/ignored''] [] None []))
       ([(''/users'', plain_endpoint)] @ [(''/items'', plain_endpoint)])))) = [''users'', ''items'']"
proof -
  let ?P = "example_parser [] [] [] [''id'']"
  let ?S = "example_source (example_config [''/ignored''] [] None [])"
  let ?sp = "\<lparr>basePath = None, paths = JNull\<rparr>"
  have h: "''/ignored'' \<in> set (ignore_endpoints (config ?S))"
    by (simp add: example_defs)
  from ignored_endpoint_skipped [OF h, of ?P ?sp plain_endpoint "[(''/users'', plain_endpoint)]"
      "[(''/items'', plain_endpoint)]"]
  have a: "crawl ?P ?sp ?S
        ([(''/users'', plain_endpoint)] @ (''/ignored'', plain_endpoint) # [(''/items'', plain_endpoint)])
      = crawl ?P ?sp ?S ([(''/users'', plain_endpoint)] @ [(''/items'', plain_endpoint)])"
    by simp
  have b: "map wu_id (yielded (fst (crawl ?P ?sp ?S
        ([(''/users'', plain_endpoint)] @ [(''/items'', plain_endpoint)])))) = [''users'', ''items'']"
    by (simp add: example_defs run_defs step_defs)
  from h a b show ?thesis by blast
qed

text \<open>
  C6 as stated fails: a warning of the enumeration that names the ignored endpoint is
  in the report of the run.
\<close>

theorem enumeration_warning_names_ignored:
  "''/ignored'' \<in> set (ignore_endpoints (example_config [''/ignored''] [] None []))
   \<and> report (fst (get_workunits_internal
       (example_parser [(''/ignored'', plain_endpoint)]
          [''Field in swagger file does not give consistent data --- /ignored''] [] [''id''])
       (example_source (example_config [''/ignored''] [] None [])))) =
     [(''/ignored'', ''Field in swagger file does not give consistent data'')]"
  by (simp add: example_defs run_defs step_defs)

section \<open>A response without fields\<close>

text \<open>
  C7. When the response to the request for an endpoint has status 200 and no fields
  are inferred from it, the item ends without an exception, one work unit is yielded,
  whose schema metadata are built from the empty field list, and the warning
  \<open>''No Fields''\<close> is added to the report under the endpoint's key. This holds for the
  request to the key itself, to the guess and to the forced example.
\<close>

theorem no_fields_is_emitted:
  assumes "reaches_fetch env sp self (k, dets)"
    and "resolved_url env self k = Inr u"
    and "status_code (fetched env self u) = 200"
    and "fst (extract_fields env (fetched env self u) (dataset_name_of k)) = []"
  shows "snd (process_endpoint env sp self (k, dets)) = None
         \<and> yielded (fst (process_endpoint env sp self (k, dets))) =
             yielded self @
               [build_wu ((fst (init_dataset env self k dets))
                   \<lparr>aspects := aspects (fst (init_dataset env self k dets))
                      @ [SchemaMetadata (set_metadata env (dataset_name_of k) [])]\<rparr>)
                  (dataset_name_of k)]
         \<and> report (fst (process_endpoint env sp self (k, dets))) =
             report self @ [(k, ''No Fields'')]"
  using assms(3,4)
  by (simp add: process_endpoint_fetch [OF assms(1,2)] fetch_endpoint_def Let_def
      emit_fields_def yield_wu_def report_warning_def)

text \<open>
  The theorem of C7 on a response without fields.
\<close>

theorem no_fields_is_emitted_witness:
  "status_code (fetched (example_parser [] [] [] [])
       (example_source (example_config [] [] None [])) ''/users'') = 200
   \<and> fst (extract_fields (example_parser [] [] [] [])
       (fetched (example_parser [] [] [] []) (example_source (example_config [] [] None [])) ''/users'')
       (dataset_name_of ''/users'')) = []
   \<and> snd (process_endpoint (example_parser [] [] [] []) \<lparr>basePath = None, paths = JNull\<rparr>
       (example_source (example_config [] [] None [])) (''/users'', plain_endpoint)) = None
   \<and> yielded (fst (process_endpoint (example_parser [] [] [] []) \<lparr>basePath = None, paths = JNull\<rparr>
       (example_source (example_config [] [] None [])) (''/users'', plain_endpoint))) =
       [\<lparr>wu_id = ''users'',
         proposedSnapshot =
           \<lparr>urn = ''urn:li:dataset:(urn:li:dataPlatform:OpenApi,shop.users,PROD)'',
            aspects = [DatasetProperties ''d'', GlobalTags [],
                       InstitutionalMemory ''http://h/users'' ''Link to call for the dataset.'',
                       SchemaMetadata (''users'', [])]\<rparr>\<rparr>]
   \<and> report (fst (process_endpoint (example_parser [] [] [] []) \<lparr>basePath = None, paths = JNull\<rparr>
       (example_source (example_config [] [] None [])) (''/users'', plain_endpoint))) =
       [(''/users'', ''No Fields'')]"
proof -
  let ?P = "example_parser [] [] [] []"
  let ?S = "example_source (example_config [] [] None [])"
  let ?sp = "\<lparr>basePath = None, paths = JNull\<rparr>"
  have h1: "reaches_fetch ?P ?sp ?S (''/users'', plain_endpoint)"
    by (simp add: example_defs step_defs)
  have h2: "resolved_url ?P ?S ''/users'' = Inr ''/users''"
    by (simp add: example_defs step_defs)
  have h3: "status_code (fetched ?P ?S ''/users'') = 200"
    by (simp add: example_defs step_defs)
  have h4: "fst (extract_fields ?P (fetched ?P ?S ''/users'') (dataset_name_of ''/users'')) = []"
    by (simp add: example_defs)
  note t = no_fields_is_emitted [OF h1 h2 h3 h4]
  have n: "dataset_name_of ''/users'' = ''users''"
    by (simp add: dataset_name_of_def str_replace_def)
  have i: "fst (init_dataset ?P ?S ''/users'' plain_endpoint) =
      \<lparr>urn = ''urn:li:dataset:(urn:li:dataPlatform:OpenApi,shop.users,PROD)'',
       aspects = [DatasetProperties ''d'', GlobalTags [],
                  InstitutionalMemory ''http://h/users'' ''Link to call for the dataset.'']\<rparr>"
    by (simp add: init_dataset_def n tot_url_of_def example_defs Let_def)
  from t h3 h4 show ?thesis
    unfolding i n by (simp add: example_defs build_wu_def)
qed

section \<open>A declared schema\<close>

text \<open>
  C8. For an endpoint that is not ignored and whose declared schema gives metadata,
  no request is sent, and the metadata of the work unit are those that
  \<^verbatim>\<open>set_metadata\<close> builds from \<^verbatim>\<open>endpoint_dets["data"]\<close>: the extracted metadata \<open>md\<close>
  do not occur in the result. Where the endpoint has no \<^verbatim>\<open>data\<close> key the subscript
  raises \<^verbatim>\<open>KeyError\<close> and nothing is emitted.
\<close>

theorem declared_schema_uses_data:
  assumes "k \<notin> set (ignore_endpoints (config self))"
    and "declared_metadata env sp (dataset_name_of k) dets = Some md"
  shows "calls (fst (process_endpoint env sp self (k, dets))) = calls self
     \<and> (data dets = None \<longrightarrow>
          process_endpoint env sp self (k, dets) = (self, Some (KeyError ''data'')))
     \<and> (\<forall>d. data dets = Some d \<longrightarrow>
          process_endpoint env sp self (k, dets) =
            (self\<lparr>yielded := yielded self @
               [build_wu ((fst (init_dataset env self k dets))
                   \<lparr>aspects := aspects (fst (init_dataset env self k dets))
                      @ [SchemaMetadata (set_metadata env (dataset_name_of k) d)]\<rparr>)
                  (dataset_name_of k)]\<rparr>, None))"
  by (auto simp: process_endpoint_declared [OF assms] yield_wu_def split: option.splits)

text \<open>
  The theorem of C8 on an endpoint with a declared schema, with data and without.
\<close>

theorem declared_schema_uses_data_witness:
  "declared_metadata (example_parser [] [] [] [''id'']) \<lparr>basePath = None, paths = JNull\<rparr>
       (dataset_name_of ''/users'')
       \<lparr>description = ''d'', tags = [], schema = Some [(''type'', JStr ''object'')],
        data = Some [''email'']\<rparr> = Some (''users'', [''type''])
   \<and> map (\<lambda>w. last (aspects (proposedSnapshot w)))
       (yielded (fst (process_endpoint (example_parser [] [] [] [''id''])
         \<lparr>basePath = None, paths = JNull\<rparr> (example_source (example_config [] [] None []))
         (''/users'', \<lparr>description = ''d'', tags = [], schema = Some [(''type'', JStr ''object'')],
                      data = Some [''email'']\<rparr>)))) = [SchemaMetadata (''users'', [''email''])]
   \<and> calls (fst (process_endpoint (example_parser [] [] [] [''id''])
         \<lparr>basePath = None, paths = JNull\<rparr> (example_source (example_config [] [] None []))
         (''/users'', \<lparr>description = ''d'', tags = [], schema = Some [(''type'', JStr ''object'')],
                      data = Some [''email'']\<rparr>))) = []
   \<and> process_endpoint (example_parser [] [] [] [''id''])
         \<lparr>basePath = None, paths = JNull\<rparr> (example_source (example_config [] [] None []))
         (''/users'', \<lparr>description = ''d'', tags = [], schema = Some [(''type'', JStr ''object'')],
                      data = None\<rparr>) =
       (example_source (example_config [] [] None []), Some (KeyError ''data''))"
proof -
  let ?P = "example_parser [] [] [] [''id'']"
  let ?S = "example_source (example_config [] [] None [])"
  let ?sp = "\<lparr>basePath = None, paths = JNull\<rparr>"
  let ?with = "\<lparr>description = ''d'', tags = [], schema = Some [(''type'', JStr ''object'')],
                data = Some [''email'']\<rparr>"
  let ?without = "\<lparr>description = ''d'', tags = [], schema = Some [(''type'', JStr ''object'')],
                data = None\<rparr>"
  have n: "dataset_name_of ''/users'' = ''users''"
    by (simp add: dataset_name_of_def str_replace_def)
  have h1: "''/users'' \<notin> set (ignore_endpoints (config ?S))"
    by (simp add: example_defs)
  have h2: "declared_metadata ?P ?sp (dataset_name_of ''/users'') ?with = Some (''users'', [''type''])"
    by (simp add: declared_metadata_def example_defs n)
  have h3: "declared_metadata ?P ?sp (dataset_name_of ''/users'') ?without = Some (''users'', [''type''])"
    by (simp add: declared_metadata_def example_defs n)
  from declared_schema_uses_data [OF h1 h2]
  have a: "calls (fst (process_endpoint ?P ?sp ?S (''/users'', ?with))) = calls ?S"
    and b: "process_endpoint ?P ?sp ?S (''/users'', ?with) =
          (?S\<lparr>yielded := yielded ?S @
               [build_wu ((fst (init_dataset ?P ?S ''/users'' ?with))
                   \<lparr>aspects := aspects (fst (init_dataset ?P ?S ''/users'' ?with))
                      @ [SchemaMetadata (set_metadata ?P (dataset_name_of ''/users'') [''email''])]\<rparr>)
                  (dataset_name_of ''/users'')]\<rparr>, None)"
    by simp_all
  from declared_schema_uses_data [OF h1 h3]
  have c: "process_endpoint ?P ?sp ?S (''/users'', ?without) = (?S, Some (KeyError ''data''))"
    by simp
  from a have a': "calls (fst (process_endpoint ?P ?sp ?S (''/users'', ?with))) = []"
    by (simp add: example_source_def)
  have b': "map (\<lambda>w. last (aspects (proposedSnapshot w)))
       (yielded (fst (process_endpoint ?P ?sp ?S (''/users'', ?with))))
     = [SchemaMetadata (''users'', [''email''])]"
    unfolding b n by (simp add: example_defs build_wu_def)
  from h2 a' b' c show ?thesis by blast
qed

section \<open>The token\<close>

text \<open>
  C9. With a configured token, \<^verbatim>\<open>get_swagger\<close> checks nothing of the descriptor
  \<^verbatim>\<open>get_token\<close> and sends no request for a token: its only request is the one for the
  document, with the configured token, and its result is the result of that request,
  whatever the descriptor holds.
\<close>

theorem token_skips_acquisition:
  assumes "token cfg = Some t"
  shows "acquire_token env cfg = ([], Inr t)
     \<and> get_swagger env cfg =
         ([GetSwagJson (url cfg) (Token t) (swagger_file cfg)],
          (case get_swag_json env (url cfg) (Token t) (swagger_file cfg) of
             Inl e \<Rightarrow> Inl e
           | Inr sw \<Rightarrow> Inr (cfg, sw)))"
proof -
  have "cfg\<lparr>token := Some t\<rparr> = cfg"
    using assms by (cases cfg) simp
  with assms show ?thesis
    by (simp add: get_swagger_def acquire_token_def split: sum.splits)
qed

text \<open>
  The theorem of C9 on a descriptor without \<^verbatim>\<open>url_complement\<close> and with the request
  type \<open>''put''\<close>, which without the token fails.
\<close>

theorem token_skips_acquisition_witness:
  "token (example_config [] [] (Some ''abc'') [(''request_type'', ''put'')]) = Some ''abc''
   \<and> get_swagger (example_parser [] [] [] [''id''])
       (example_config [] [] (Some ''abc'') [(''request_type'', ''put'')]) =
     ([GetSwagJson ''http://h'' (Token ''abc'') ''s.json''],
      Inr (example_config [] [] (Some ''abc'') [(''request_type'', ''put'')],
           \<lparr>basePath = Some ''/api'', paths = JNull\<rparr>))
   \<and> isl (snd (get_swagger (example_parser [] [] [] [''id''])
       (example_config [] [] None [(''request_type'', ''put'')])))"
proof -
  let ?P = "example_parser [] [] [] [''id'']"
  let ?cfg = "example_config [] [] (Some ''abc'') [(''request_type'', ''put'')]"
  have h: "token ?cfg = Some ''abc''"
    by (simp add: example_config_def)
  from token_skips_acquisition [OF h, of ?P]
  have "get_swagger ?P ?cfg =
      ([GetSwagJson (url ?cfg) (Token ''abc'') (swagger_file ?cfg)],
       (case get_swag_json ?P (url ?cfg) (Token ''abc'') (swagger_file ?cfg) of
          Inl e \<Rightarrow> Inl e | Inr sw \<Rightarrow> Inr (?cfg, sw)))"
    by simp
  then have a: "get_swagger ?P ?cfg =
     ([GetSwagJson ''http://h'' (Token ''abc'') ''s.json''],
      Inr (?cfg, \<lparr>basePath = Some ''/api'', paths = JNull\<rparr>))"
    by (simp add: example_parser_def) (simp add: example_config_def)
  have b: "isl (snd (get_swagger ?P (example_config [] [] None [(''request_type'', ''put'')])))"
    by (simp add: get_swagger_def acquire_token_def example_config_def)
  from h a b show ?thesis by blast
qed

text \<open>
  C10. With the empty string as token, \<^verbatim>\<open>get_swagger\<close> takes the token as present: it
  requests the document with the empty token and no token is acquired. The requests
  for the endpoints take it as absent: each of them carries the user name and the
  password. So the requests of a whole run are the one for the document, with the empty
  token, followed by endpoint requests with basic authentication only.
\<close>

theorem empty_token_inconsistent:
  assumes "token (config self) = Some []"
  shows "fst (get_swagger env (config self)) =
           [GetSwagJson (url (config self)) (Token []) (swagger_file (config self))]
     \<and> endpoint_credentials (config self) =
           BasicAuth (username (config self)) (password (config self))
     \<and> (\<exists>rs. calls (fst (get_workunits_internal env self)) =
               calls self @
                 GetSwagJson (url (config self)) (Token []) (swagger_file (config self)) # rs
             \<and> (\<forall>c \<in> set rs. \<exists>u. c = RequestCall u
                   (BasicAuth (username (config self)) (password (config self)))))"
proof -
  let ?g = "GetSwagJson (url (config self)) (Token []) (swagger_file (config self))"
  let ?basic = "BasicAuth (username (config self)) (password (config self))"
  let ?run = "get_workunits_internal env self"
  note gs = get_swagger_token [OF assms, of env]
  have ec: "endpoint_credentials (config self) = ?basic"
    using assms by (simp add: endpoint_credentials_def)
  have "\<exists>rs. calls (fst ?run) = calls self @ ?g # rs
             \<and> (\<forall>c \<in> set rs. \<exists>u. c = RequestCall u ?basic)"
  proof (cases "get_swag_json env (url (config self)) (Token []) (swagger_file (config self))")
    case (Inl e)
    with gs have "calls (fst ?run) = calls self @ ?g # []"
      by (simp add: get_workunits_internal_def)
    then show ?thesis by auto
  next
    case (Inr sw)
    define self1 where "self1 = self\<lparr>config := config self, calls := calls self @ [?g],
      url_basepath := (case basePath sw of None \<Rightarrow> [] | Some b \<Rightarrow> b)\<rparr>"
    obtain eps ws where ge: "get_endpoints env sw = (eps, ws)"
      by (cases "get_endpoints env sw")
    obtain self2 r where re: "report_enumeration self1 ws = (self2, r)"
      by (cases "report_enumeration self1 ws")
    with report_enumeration_frame [of self1 ws]
    have f2: "config self2 = config self" "calls self2 = calls self @ [?g]"
      by (simp_all add: self1_def)
    have run: "?run = (case r of Some e \<Rightarrow> (self2, Some e)
                 | None \<Rightarrow> crawl env sw (self2\<lparr>root_dataset_samples := []\<rparr>) eps)"
      using gs Inr ge re
      by (simp add: get_workunits_internal_def self1_def split: option.splits)
    show ?thesis
    proof (cases r)
      case (Some e)
      with run f2 have "calls (fst ?run) = calls self @ ?g # []" by simp
      then show ?thesis by auto
    next
      case None
      from crawl_calls [of env sw "self2\<lparr>root_dataset_samples := []\<rparr>" eps] f2 ec
      obtain rs where "calls (fst (crawl env sw (self2\<lparr>root_dataset_samples := []\<rparr>) eps)) =
          calls self @ ?g # rs" "\<forall>c \<in> set rs. \<exists>u. c = RequestCall u ?basic"
        by auto
      with run None show ?thesis by auto
    qed
  qed
  with gs ec show ?thesis by simp
qed

text \<open>
  The theorem of C10 on a run over one endpoint.
\<close>

theorem empty_token_inconsistent_witness:
  "token (config (example_source (example_config [] [] (Some []) []))) = Some []
   \<and> calls (fst (get_workunits_internal
        (example_parser [(''/users'', plain_endpoint)] [] [] [''id''])
        (example_source (example_config [] [] (Some []) [])))) =
      [GetSwagJson ''http://h'' (Token []) ''s.json'',
       RequestCall ''http://h/api/users'' (BasicAuth ''u'' ''p'')]
   \<and> endpoint_credentials (config (example_source (example_config [] [] (Some []) []))) =
       BasicAuth ''u'' ''p''"
proof -
  let ?P = "example_parser [(''/users'', plain_endpoint)] [] [] [''id'']"
  let ?S = "example_source (example_config [] [] (Some []) [])"
  have h: "token (config ?S) = Some []"
    by (simp add: example_defs)
  from empty_token_inconsistent [OF h, of ?P]
  have "endpoint_credentials (config ?S) = BasicAuth (username (config ?S)) (password (config ?S))"
    by simp
  then have a: "endpoint_credentials (config ?S) = BasicAuth ''u'' ''p''"
    by (simp add: example_defs)
  have b: "calls (fst (get_workunits_internal ?P ?S)) =
      [GetSwagJson ''http://h'' (Token []) ''s.json'',
       RequestCall ''http://h/api/users'' (BasicAuth ''u'' ''p'')]"
    by (simp add: example_defs run_defs step_defs)
  from h a b show ?thesis by blast
qed

end
